theory Spec2Isabelle
  imports Complex_Main "HOL-Library.AList"
begin

section \<open>Exceptions and results\<close>

text \<open>
  The module \<^verbatim>\<open>hydrodata/hydrodata.py\<close> defines one class, \<^verbatim>\<open>Station\<close>, whose
  constructor resolves a USGS station (by id or by coordinates), creates its data
  directory and resolves its watershed.  Every exception the constructor and its three
  helper methods can raise is a value of \<open>error\<close>; a method that may raise returns
  \<open>error + 'a\<close>, with \<open>Inl\<close> for the exception.

  \<open>RuntimeError\<close> is raised by the constructor itself (line 83).  \<open>NameError\<close> is what
  Python raises when a name that is bound nowhere is evaluated (lines 97 and 148).
  \<open>IndexError\<close>, \<open>KeyError\<close>, \<open>AttributeError\<close> and \<open>ValueError\<close> come from
  indexing, dictionary and data-frame access and from \<^verbatim>\<open>float\<close>.  \<open>OSError\<close> is
  raised by \<^verbatim>\<open>os.makedirs\<close>, \<open>DriverError\<close> by reading or writing a geometry file.
  \<open>HTTPError\<close>, \<open>ConnectionError\<close>, \<open>Timeout\<close> and \<open>RequestException\<close> are the
  exceptions of the \<^verbatim>\<open>requests\<close> package that line 21 imports; \<open>ParserError\<close> is
  what \<^verbatim>\<open>pd.to_datetime\<close> raises on a string that is no date.
\<close>

datatype error =
    RuntimeError | NameError | IndexError | KeyError | AttributeError | ValueError
  | OSError | DriverError
  | HTTPError | ConnectionError | Timeout | RequestException
  | ParserError

definition bind :: "error + 'a \<Rightarrow> ('a \<Rightarrow> error + 'b) \<Rightarrow> error + 'b" where
  "bind m f = (case m of Inl e \<Rightarrow> Inl e | Inr x \<Rightarrow> f x)"

definition raise_if :: "bool \<Rightarrow> error \<Rightarrow> error + unit" where
  "raise_if b e = (if b then Inl e else Inr ())"

section \<open>Strings, dictionaries and tables\<close>

text \<open>
  \<^verbatim>\<open>s.split(sep)\<close> with a one-character separator: the pieces between the
  separators, always at least one piece (\<^verbatim>\<open>"".split("\n") == [""]\<close>).
\<close>

fun split :: "char \<Rightarrow> string \<Rightarrow> string list" where
  "split sep [] = [[]]"
| "split sep (c # cs) =
     (if c = sep then [] # split sep cs
      else (case split sep cs of
              [] \<Rightarrow> [[c]]
            | w # ws \<Rightarrow> (c # w) # ws))"


text \<open>
  A Python \<^verbatim>\<open>dict\<close> is an association list with distinct keys in insertion order.
  \<^verbatim>\<open>dict(pairs)\<close> inserts the pairs from left to right: a key seen again keeps its
  place and takes the new value.
\<close>

type_synonym ('k, 'v) pydict = "('k \<times> 'v) list"

definition dict :: "('k \<times> 'v) list \<Rightarrow> ('k, 'v) pydict" where
  "dict kvs = foldl (\<lambda>d (k, v). AList.update k v d) [] kvs"

text \<open>\<^verbatim>\<open>d[key]\<close>: \<^verbatim>\<open>KeyError\<close> when the key is missing.\<close>

definition getitem :: "('k, 'v) pydict \<Rightarrow> 'k \<Rightarrow> error + 'v" where
  "getitem d k = (case map_of d k of None \<Rightarrow> Inl KeyError | Some v \<Rightarrow> Inr v)"

text \<open>
  Lines 122--123 and 153--154: the response text is split into lines, the lines that
  contain \<^verbatim>\<open>#\<close> are dropped, and each remaining line is split at the tabs.
\<close>

definition r_list :: "string \<Rightarrow> string list list" where
  "r_list text = map (split (CHR 0x09)) (filter (\<lambda>l. CHR ''#'' \<notin> set l) (split (CHR 0x0A) text))"

section \<open>The world outside the module\<close>

text \<open>
  A query to the USGS site service, \<^verbatim>\<open>session.get(url, params=payload)\<close>: the payload
  asks either for one site (line 116) or for a bounding box (lines 136--145).  The box is
  kept as its four numbers west, south, east, north; their formatting with six decimals
  is not modelled.
\<close>

type_synonym point = "real \<times> real"

datatype query = Sites string | BBox real real real real

datatype navigation = upstreamTributaries | upstreamMain

text \<open>
  The object \<^verbatim>\<open>NLDI(station_id=...)\<close> of \<^verbatim>\<open>hydrodata.datasets\<close>.  That module is
  not part of the sources, so the object is given by the outcome of each of the four
  members \<^verbatim>\<open>get_watershed\<close> uses: the attribute \<^verbatim>\<open>comid\<close>, the index values of
  the frame \<^verbatim>\<open>get_river_network(navigation)\<close> returns, the rows (reach id and
  \<^verbatim>\<open>areasqkm\<close>) of the frame \<^verbatim>\<open>get_nhdplus_byid(comids)\<close> returns, and the
  values of the geometry series \<^verbatim>\<open>basin\<close>.
\<close>

record 'g nldi =
  nldi_comid :: "error + int"
  nldi_get_river_network :: "navigation \<Rightarrow> error + int list"
  nldi_get_nhdplus_byid :: "int list \<Rightarrow> error + (int \<times> real) list"
  nldi_basin :: "error + 'g list"

text \<open>
  Everything the module calls and does not define: \<^verbatim>\<open>pd.to_datetime\<close>, Python's
  \<^verbatim>\<open>float\<close> on a string (\<open>None\<close> for \<^verbatim>\<open>ValueError\<close>; the floats are taken as
  real numbers), the second component of \<^verbatim>\<open>shapely.ops.nearest_points(point, union)\<close>
  for the union of a list of points (\<open>None\<close> for the \<^verbatim>\<open>ValueError\<close> raised on an
  empty geometry), the text of the response of \<^verbatim>\<open>self.session.get\<close>, and the
  constructor of \<^verbatim>\<open>NLDI\<close>.
\<close>

record ('d, 'g) env =
  to_datetime :: "string \<Rightarrow> error + 'd"
  py_float :: "string \<Rightarrow> real option"
  nearest_points :: "point \<Rightarrow> point list \<Rightarrow> point option"
  session_get :: "query \<Rightarrow> error + string"
  NLDI :: "string \<Rightarrow> error + 'g nldi"

text \<open>\<^verbatim>\<open>float(s)\<close> as a step that may raise.\<close>

definition to_float :: "('d, 'g) env \<Rightarrow> string \<Rightarrow> error + real" where
  "to_float w s = (case py_float w s of None \<Rightarrow> Inl ValueError | Some x \<Rightarrow> Inr x)"

section \<open>Resolving a station from its id: \<^verbatim>\<open>get_coords\<close>\<close>

text \<open>
  What \<^verbatim>\<open>get_coords\<close> and \<^verbatim>\<open>get_id\<close> assign to the object: \<^verbatim>\<open>station_id\<close>,
  \<^verbatim>\<open>coords\<close> (longitude, latitude), \<^verbatim>\<open>altitude\<close> in meters, \<^verbatim>\<open>datum\<close> and
  \<^verbatim>\<open>name\<close>.
\<close>

record site =
  station_id :: string
  coords :: point
  altitude :: real
  datum :: string
  name :: string

text \<open>
  Lines 113--129.  The \<^verbatim>\<open>except\<close> clause of line 119 re-raises what it catches, so
  an exception of \<^verbatim>\<open>session.get\<close> leaves the method unchanged.  \<^verbatim>\<open>r_list[0]\<close> and
  \<^verbatim>\<open>r_list[2]\<close> raise \<^verbatim>\<open>IndexError\<close> on a table of fewer than three lines.
\<close>

definition get_coords :: "('d, 'g) env \<Rightarrow> string \<Rightarrow> error + site" where
  "get_coords w sid =
     bind (session_get w (Sites sid)) (\<lambda>text.
     bind (raise_if (length (r_list text) < 3) IndexError) (\<lambda>_.
     let station = dict (zip (r_list text ! 0) (r_list text ! 2)) in
     bind (getitem station ''dec_long_va'') (\<lambda>lon_s.
     bind (to_float w lon_s) (\<lambda>lon.
     bind (getitem station ''dec_lat_va'') (\<lambda>lat_s.
     bind (to_float w lat_s) (\<lambda>lat.
     bind (getitem station ''alt_va'') (\<lambda>alt_s.
     bind (to_float w alt_s) (\<lambda>alt.
     bind (getitem station ''alt_datum_cd'') (\<lambda>dat.
     bind (getitem station ''station_nm'') (\<lambda>nm.
       Inr \<lparr>station_id = sid, coords = (lon, lat), altitude = alt * 0.3048,
            datum = dat, name = nm\<rparr>))))))))))"

section \<open>Resolving a station from coordinates: \<^verbatim>\<open>get_id\<close>\<close>

text \<open>
  Line 155: one dictionary per table line after the first two (the header and the
  line of field widths), pairing the header's names with the line's fields.
  \<^verbatim>\<open>r_list[0]\<close> is only evaluated when there is such a line, so it cannot raise.
\<close>

type_synonym row = "(string, string) pydict"

definition r_dict :: "string \<Rightarrow> row list" where
  "r_dict text = map (\<lambda>st. dict (zip (r_list text ! 0) st)) (drop 2 (r_list text))"

text \<open>
  Line 157.  \<^verbatim>\<open>pd.DataFrame.from_dict\<close> of a list of dictionaries has one column
  per key that occurs in some dictionary; a dictionary without the key has NaN in that
  column.  \<^verbatim>\<open>dropna()\<close> keeps the rows without NaN: the dictionaries that have
  every column.
\<close>

definition columns :: "row list \<Rightarrow> string list" where
  "columns rs = remdups (concat (map (map fst) rs))"

definition dropna :: "row list \<Rightarrow> row list" where
  "dropna rs = filter (\<lambda>r. list_all (\<lambda>c. map_of r c \<noteq> None) (columns rs)) rs"

text \<open>
  Lines 157--158: the rows left after \<^verbatim>\<open>dropna()\<close> and after dropping the rows
  whose \<^verbatim>\<open>alt_va\<close> is the empty string.  These are the valid candidates.
\<close>

definition valid_rows :: "string \<Rightarrow> row list" where
  "valid_rows text = filter (\<lambda>r. map_of r ''alt_va'' \<noteq> Some []) (dropna (r_dict text))"



text \<open>
  Lines 159--161: the three numeric columns of a row as floats.
\<close>

record station_row =
  cells :: row
  dec_lat_va :: real
  dec_long_va :: real
  alt_va :: real

definition astype_float :: "('d, 'g) env \<Rightarrow> row \<Rightarrow> error + station_row" where
  "astype_float w r =
     bind (getitem r ''dec_lat_va'') (\<lambda>lat_s.
     bind (to_float w lat_s) (\<lambda>lat.
     bind (getitem r ''dec_long_va'') (\<lambda>lon_s.
     bind (to_float w lon_s) (\<lambda>lon.
     bind (getitem r ''alt_va'') (\<lambda>alt_s.
     bind (to_float w alt_s) (\<lambda>alt.
       Inr \<lparr>cells = r, dec_lat_va = lat, dec_long_va = lon, alt_va = alt\<rparr>))))))"

fun traverse :: "('a \<Rightarrow> error + 'b) \<Rightarrow> 'a list \<Rightarrow> error + 'b list" where
  "traverse f [] = Inr []"
| "traverse f (x # xs) = bind (f x) (\<lambda>y. bind (traverse f xs) (\<lambda>ys. Inr (y # ys)))"

text \<open>
  Lines 153--161, the data frame \<^verbatim>\<open>df\<close> that the search runs on.  \<^verbatim>\<open>df.alt_va\<close>
  raises \<^verbatim>\<open>AttributeError\<close> when the frame has no such column, selecting the three
  numeric columns raises \<^verbatim>\<open>KeyError\<close> when one is missing, and \<^verbatim>\<open>astype\<close>
  raises \<^verbatim>\<open>ValueError\<close> on a field that is no number.
\<close>

definition candidates :: "('d, 'g) env \<Rightarrow> string \<Rightarrow> error + station_row list" where
  "candidates w text =
     bind (raise_if (''alt_va'' \<notin> set (columns (r_dict text))) AttributeError) (\<lambda>_.
     bind (raise_if (\<not> set [''dec_lat_va'', ''dec_long_va'', ''alt_va'']
                          \<subseteq> set (columns (r_dict text))) KeyError) (\<lambda>_.
     traverse (astype_float w) (valid_rows text)))"

text \<open>
  \<^verbatim>\<open>gdf.unary_union\<close> of a series of points is the set of the distinct points.
\<close>

definition unary_union :: "point list \<Rightarrow> point list" where
  "unary_union ps = remdups ps"

text \<open>
  Lines 136--143: the box of half a degree to each side of the point.
\<close>

definition bbox :: "point \<Rightarrow> query" where
  "bbox xy = BBox (fst xy - 0.5) (snd xy - 0.5) (fst xy + 0.5) (snd xy + 0.5)"

text \<open>
  Lines 170--181, the search on the frame \<^verbatim>\<open>df\<close> and the dictionary \<^verbatim>\<open>pts\<close>
  from \<^verbatim>\<open>site_no\<close> to point: \<^verbatim>\<open>nearest\<close> is the point of the union nearest to
  the query point, \<^verbatim>\<open>idx\<close> is the first key of \<^verbatim>\<open>pts\<close> whose point equals it,
  and \<^verbatim>\<open>station\<close> is the first row of \<^verbatim>\<open>df\<close> with that \<^verbatim>\<open>site_no\<close>.
\<close>

definition nearest_station ::
  "('d, 'g) env \<Rightarrow> point \<Rightarrow> station_row list \<Rightarrow> (string, point) pydict \<Rightarrow> error + site" where
  "nearest_station w xy df pts =
     (case nearest_points w xy (unary_union (map snd pts)) of
        None \<Rightarrow> Inl ValueError
      | Some nearest \<Rightarrow>
          (case filter (\<lambda>kp. snd kp = nearest) pts of
             [] \<Rightarrow> Inl IndexError
           | kp # _ \<Rightarrow>
               (case filter (\<lambda>r. map_of (cells r) ''site_no'' = Some (fst kp)) df of
                  [] \<Rightarrow> Inl IndexError
                | station # _ \<Rightarrow>
                    bind (getitem (cells station) ''alt_datum_cd'') (\<lambda>dat.
                    bind (case map_of (cells station) ''station_nm'' of
                            None \<Rightarrow> Inl AttributeError
                          | Some nm \<Rightarrow> Inr nm) (\<lambda>nm.
                      Inr \<lparr>station_id = fst kp,
                           coords = (dec_long_va station, dec_lat_va station),
                           altitude = alt_va station * 0.3048,
                           datum = dat, name = nm\<rparr>)))))"

text \<open>
  Lines 131--181.  Evaluating the \<^verbatim>\<open>except\<close> clause of line 148 raises
  \<^verbatim>\<open>NameError\<close>, since the module binds no name \<^verbatim>\<open>requests\<close>: whatever
  \<^verbatim>\<open>session.get\<close> raises, the method raises \<^verbatim>\<open>NameError\<close>.  Lines 164--169
  build \<^verbatim>\<open>pts\<close>; selecting the column \<^verbatim>\<open>site_no\<close> raises \<^verbatim>\<open>KeyError\<close>
  when the frame has none.
\<close>

definition get_id :: "('d, 'g) env \<Rightarrow> point \<Rightarrow> error + site" where
  "get_id w xy =
     (case session_get w (bbox xy) of
        Inl e \<Rightarrow> Inl NameError
      | Inr text \<Rightarrow>
          bind (candidates w text) (\<lambda>df.
          bind (raise_if (''site_no'' \<notin> set (columns (r_dict text))) KeyError) (\<lambda>_.
          bind (traverse (\<lambda>r. bind (getitem (cells r) ''site_no'')
                                 (\<lambda>s. Inr (s, (dec_long_va r, dec_lat_va r)))) df) (\<lambda>kvs.
            nearest_station w xy df (dict kvs)))))"

section \<open>The file system\<close>

text \<open>
  A path is the list of its components: \<^verbatim>\<open>Path(data_dir, station_id)\<close> is
  \<open>[data_dir, station_id]\<close> and \<^verbatim>\<open>joinpath\<close> appends a component.  The file
  system holds the directories, the geometry files with the series of geometries each
  one stores (a file returns on reading what was written to it), and the paths on
  which the operating system refuses every operation.
\<close>

type_synonym path = "string list"

record 'g filesystem =
  dirs :: "path set"
  files :: "path \<rightharpoonup> 'g list"
  denied :: "path set"

definition is_dir :: "'g filesystem \<Rightarrow> path \<Rightarrow> bool" where
  "is_dir fs p \<longleftrightarrow> p \<in> dirs fs"

definition exists :: "'g filesystem \<Rightarrow> path \<Rightarrow> bool" where
  "exists fs p \<longleftrightarrow> p \<in> dirs fs \<or> files fs p \<noteq> None"

text \<open>The path itself and the directories above it, outermost first.\<close>

fun ancestors :: "path \<Rightarrow> path list" where
  "ancestors [] = []"
| "ancestors (c # cs) = [c] # map ((#) c) (ancestors cs)"

text \<open>
  \<^verbatim>\<open>os.makedirs(p)\<close> creates the directory and the missing directories above it.
  It raises \<^verbatim>\<open>OSError\<close> when the path exists already, or when the path or one
  above it is a file or refused.
\<close>

definition makedirs :: "'g filesystem \<Rightarrow> path \<Rightarrow> error + 'g filesystem" where
  "makedirs fs p =
     (if exists fs p \<or> list_ex (\<lambda>q. q \<in> denied fs \<or> files fs q \<noteq> None) (ancestors p)
      then Inl OSError
      else Inr (fs\<lparr>dirs := dirs fs \<union> set (ancestors p)\<rparr>))"

text \<open>
  \<^verbatim>\<open>gpd.read_file(p).geometry\<close> and \<^verbatim>\<open>geom.to_file(p)\<close>.  Writing needs the
  directory of the file.
\<close>

definition read_file :: "'g filesystem \<Rightarrow> path \<Rightarrow> error + 'g list" where
  "read_file fs p =
     (case files fs p of
        None \<Rightarrow> Inl DriverError
      | Some gs \<Rightarrow> if p \<in> denied fs then Inl DriverError else Inr gs)"

definition to_file :: "'g filesystem \<Rightarrow> path \<Rightarrow> 'g list \<Rightarrow> error + 'g filesystem" where
  "to_file fs p gs =
     (if p \<in> denied fs \<or> p \<in> dirs fs \<or> butlast p \<notin> dirs fs then Inl DriverError
      else Inr (fs\<lparr>files := (files fs)(p \<mapsto> gs)\<rparr>))"

text \<open>\<^verbatim>\<open>xs.values[0]\<close>: \<^verbatim>\<open>IndexError\<close> on an empty series.\<close>

definition values0 :: "'a list \<Rightarrow> error + 'a" where
  "values0 xs = (case xs of [] \<Rightarrow> Inl IndexError | x # _ \<Rightarrow> Inr x)"

section \<open>Resolving the watershed: \<^verbatim>\<open>get_watershed\<close>\<close>

text \<open>
  The requests to the NLDI service are recorded: a method returns the list of the
  requests it made, in order, beside its result.
\<close>

datatype call = Comid | Get_river_network navigation | Get_nhdplus_byid "int list" | Basin

type_synonym 'a logged = "call list \<times> (error + 'a)"

definition returnL :: "'a \<Rightarrow> 'a logged" where
  "returnL x = ([], Inr x)"

definition local :: "error + 'a \<Rightarrow> 'a logged" where
  "local r = ([], r)"

definition remote :: "call \<Rightarrow> error + 'a \<Rightarrow> 'a logged" where
  "remote c r = ([c], r)"

definition bindL :: "'a logged \<Rightarrow> ('a \<Rightarrow> 'b logged) \<Rightarrow> 'b logged" where
  "bindL m f =
     (case m of
        (l, Inl e) \<Rightarrow> (l, Inl e)
      | (l, Inr x) \<Rightarrow> (case f x of (l', r) \<Rightarrow> (l @ l', r)))"

text \<open>What \<^verbatim>\<open>get_watershed\<close> assigns to the object.\<close>

record 'g watershed =
  comid :: int
  tributaries :: "int list"
  main_channel :: "int list"
  flowlines :: "(int \<times> real) list"
  drainage_area :: real
  geometry :: 'g

text \<open>
  Lines 183--218.  The first five steps run whatever the file system holds; the test
  of line 202 comes after them.  When \<^verbatim>\<open>geometry.gpkg\<close> exists the geometry is read
  from it and the method returns; otherwise the basin is requested, its first value
  kept, and the series written to the file.
\<close>

definition get_watershed ::
  "('d, 'g) env \<Rightarrow> 'g filesystem \<Rightarrow> path \<Rightarrow> string \<Rightarrow> ('g watershed \<times> 'g filesystem) logged" where
  "get_watershed w fs data_dir sid =
     (let geom_file = data_dir @ [''geometry.gpkg''] in
      bindL (local (NLDI w sid)) (\<lambda>ws.
      bindL (remote Comid (nldi_comid ws)) (\<lambda>c.
      bindL (remote (Get_river_network upstreamTributaries)
               (nldi_get_river_network ws upstreamTributaries)) (\<lambda>tribs.
      bindL (remote (Get_river_network upstreamMain)
               (nldi_get_river_network ws upstreamMain)) (\<lambda>main.
      bindL (remote (Get_nhdplus_byid tribs) (nldi_get_nhdplus_byid ws tribs)) (\<lambda>fl.
      if exists fs geom_file then
        bindL (local (read_file fs geom_file)) (\<lambda>gdf.
        bindL (local (values0 gdf)) (\<lambda>g.
          returnL (\<lparr>comid = c, tributaries = tribs, main_channel = main, flowlines = fl,
                    drainage_area = sum_list (map snd fl), geometry = g\<rparr>, fs)))
      else
        bindL (remote Basin (nldi_basin ws)) (\<lambda>geom.
        bindL (local (values0 geom)) (\<lambda>g.
        bindL (local (to_file fs geom_file geom)) (\<lambda>fs'.
          returnL (\<lparr>comid = c, tributaries = tribs, main_channel = main, flowlines = fl,
                    drainage_area = sum_list (map snd fl), geometry = g\<rparr>, fs'))))))))))"

section \<open>The constructor\<close>

text \<open>
  The attributes of a constructed \<^verbatim>\<open>Station\<close>.  The arguments \<^verbatim>\<open>rain_snow\<close>,
  \<^verbatim>\<open>tcr\<close>, \<^verbatim>\<open>phenology\<close> and \<^verbatim>\<open>width\<close> are stored as given and read by
  nothing here; they are left out, as is the session object.
\<close>

record ('d, 'g) station =
  start_date :: 'd
  end_date :: 'd
  resolved :: site
  lon :: real
  lat :: real
  data_dir :: path
  basin :: "'g watershed"

text \<open>
  Lines 35--102.  Exactly one of \<^verbatim>\<open>station_id\<close> and \<^verbatim>\<open>coords\<close> has to be
  given; otherwise line 83 raises \<^verbatim>\<open>RuntimeError\<close>.  When the data directory is
  missing it is created; the handler of \<^verbatim>\<open>OSError\<close> (lines 94--98) formats a
  message from the name \<^verbatim>\<open>d\<close>, which is bound nowhere, so the handler itself
  raises \<^verbatim>\<open>NameError\<close>.  The summary printed by line 102 is output only.  The
  session of line 74 comes from \<^verbatim>\<open>hydrodata.utils\<close>, which is not part of the
  sources; creating it is taken not to fail.
\<close>

definition Station_init ::
  "('d, 'g) env \<Rightarrow> 'g filesystem \<Rightarrow> string \<Rightarrow> string \<Rightarrow> string option \<Rightarrow> point option \<Rightarrow> string
     \<Rightarrow> (('d, 'g) station \<times> 'g filesystem) logged" where
  "Station_init w fs start_arg end_arg station_id_arg coords_arg data_dir_arg =
     bindL (local (to_datetime w start_arg)) (\<lambda>s.
     bindL (local (to_datetime w end_arg)) (\<lambda>e.
     bindL (local (case (station_id_arg, coords_arg) of
                     (None, Some xy) \<Rightarrow> get_id w xy
                   | (Some sid, None) \<Rightarrow> get_coords w sid
                   | _ \<Rightarrow> Inl RuntimeError)) (\<lambda>st.
     let dd = [data_dir_arg, station_id st] in
     bindL (local (if is_dir fs dd then Inr fs
                   else (case makedirs fs dd of
                           Inl err \<Rightarrow> if err = OSError then Inl NameError else Inl err
                         | Inr fs' \<Rightarrow> Inr fs'))) (\<lambda>fs1.
     bindL (get_watershed w fs1 dd (station_id st)) (\<lambda>r.
       returnL (\<lparr>start_date = s, end_date = e, resolved = st,
                 lon = fst (coords st), lat = snd (coords st),
                 data_dir = dd, basin = fst r\<rparr>, snd r))))))"

section \<open>Contracts of the collaborators\<close>

text \<open>Planar distance between two points, as \<^verbatim>\<open>shapely\<close> measures it.\<close>

definition dist2 :: "point \<Rightarrow> point \<Rightarrow> real" where
  "dist2 p q = (fst p - fst q)\<^sup>2 + (snd p - snd q)\<^sup>2"



text \<open>
  Modelled from the spec: \<^verbatim>\<open>NLDI.get_nhdplus_byid\<close> of \<^verbatim>\<open>hydrodata.datasets\<close> is
  missing from the sources.  The spec gives it as
  \<^verbatim>\<open>catchments(reach_ids) -> mapping reach_id -> area_km2\<close>, fetched ``for exactly the
  reach ids present in the tributary set'': a mapping has one entry per reach id, however
  often the id is listed.
\<close>

definition catchments :: "(int \<Rightarrow> real) \<Rightarrow> int list \<Rightarrow> (int \<times> real) list" where
  "catchments area ids = map (\<lambda>i. (i, area i)) (remdups ids)"

section \<open>A concrete world\<close>

text \<open>
  Executable stand-ins for the collaborators, used to run the methods on concrete
  inputs.  \<open>float_dec\<close> is \<^verbatim>\<open>float\<close> on plain decimal literals (an optional sign,
  digits, an optional fraction); it is \<open>None\<close> on every other string, also on those
  \<^verbatim>\<open>float\<close> accepts beyond that (exponents, \<^verbatim>\<open>inf\<close>, \<^verbatim>\<open>nan\<close>, surrounding
  blanks).  \<open>nearest_scan\<close> is a linear scan that keeps the first point of least
  distance.  In \<open>world\<close> every string is a date, the site service answers every query
  with the given text, and every station has the watershed \<open>nldi_ex\<close>.
\<close>

definition digit :: "char \<Rightarrow> nat option" where
  "digit c =
     (let n = of_char c :: nat in
      if of_char (CHR ''0'') \<le> n \<and> n \<le> of_char (CHR ''9'') then Some (n - of_char (CHR ''0''))
      else None)"

fun digits :: "nat \<Rightarrow> string \<Rightarrow> nat option" where
  "digits acc [] = Some acc"
| "digits acc (c # cs) = (case digit c of None \<Rightarrow> None | Some d \<Rightarrow> digits (10 * acc + d) cs)"

definition unsigned_dec :: "string \<Rightarrow> real option" where
  "unsigned_dec s =
     (let ip = takeWhile (\<lambda>c. c \<noteq> CHR ''.'') s; fp = drop (Suc (length ip)) s in
      if ip = [] \<and> fp = [] then None
      else (case (digits 0 ip, digits 0 fp) of
              (Some a, Some b) \<Rightarrow> Some (real a + real b / 10 ^ length fp)
            | _ \<Rightarrow> None))"

definition float_dec :: "string \<Rightarrow> real option" where
  "float_dec s =
     (case s of
        [] \<Rightarrow> None
      | c # cs \<Rightarrow>
          if c = CHR ''-'' then map_option uminus (unsigned_dec cs)
          else if c = CHR ''+'' then unsigned_dec cs
          else unsigned_dec s)"

fun nearest_scan :: "point \<Rightarrow> point list \<Rightarrow> point option" where
  "nearest_scan p [] = None"
| "nearest_scan p (q # qs) =
     (case nearest_scan p qs of
        None \<Rightarrow> Some q
      | Some r \<Rightarrow> if dist2 p q \<le> dist2 p r then Some q else Some r)"

text \<open>
  A response of the site service in the RDB format: lines joined by newlines, fields
  by tabs.
\<close>

definition join :: "'a list \<Rightarrow> 'a list list \<Rightarrow> 'a list" where
  "join sep xss = (case xss of [] \<Rightarrow> [] | x # xs \<Rightarrow> x @ concat (map (\<lambda>y. sep @ y) xs))"

definition rdb :: "string list list \<Rightarrow> string" where
  "rdb tab = join [CHR 0x0A] (map (join [CHR 0x09]) tab)"

definition rdb_head :: "string list list" where
  "rdb_head =
     [[''# US Geological Survey''],
      [''site_no'', ''station_nm'', ''dec_lat_va'', ''dec_long_va'', ''alt_va'', ''alt_datum_cd''],
      [''15s'', ''50s'', ''16s'', ''16s'', ''8s'', ''10s'']]"

text \<open>One station at 100 feet; the response ends with a newline.\<close>

definition text_one :: string where
  "text_one = rdb (rdb_head @
     [[''01467087'', ''Frankford Creek'', ''40.0'', ''-75.1'', ''100'', ''NAVD88''], []])"

text \<open>One station below sea level.\<close>

definition text_low :: string where
  "text_low = rdb (rdb_head @
     [[''10250800'', ''Salt Creek'', ''36.0'', ''-116.8'', ''-10'', ''NGVD29''], []])"

text \<open>Three stations; the second and the third are at the same point.\<close>

definition text_tie :: string where
  "text_tie = rdb (rdb_head @
     [[''03'', ''far'', ''40.4'', ''-75.4'', ''30'', ''NAVD88''],
      [''02'', ''listed first'', ''40.0'', ''-75.0'', ''20'', ''NAVD88''],
      [''01'', ''listed second'', ''40.0'', ''-75.0'', ''10'', ''NAVD88''], []])"

text \<open>The three rows of the data frame that lines 153--161 make of \<open>text_tie\<close>.\<close>

definition row03 :: station_row where
  "row03 =
     \<lparr>cells = [(''site_no'', ''03''), (''station_nm'', ''far''), (''dec_lat_va'', ''40.4''),
               (''dec_long_va'', ''-75.4''), (''alt_va'', ''30''), (''alt_datum_cd'', ''NAVD88'')],
      dec_lat_va = 40.4, dec_long_va = -75.4, alt_va = 30\<rparr>"

definition row02 :: station_row where
  "row02 =
     \<lparr>cells = [(''site_no'', ''02''), (''station_nm'', ''listed first''),
               (''dec_lat_va'', ''40.0''), (''dec_long_va'', ''-75.0''), (''alt_va'', ''20''),
               (''alt_datum_cd'', ''NAVD88'')],
      dec_lat_va = 40, dec_long_va = -75, alt_va = 20\<rparr>"

definition row01 :: station_row where
  "row01 =
     \<lparr>cells = [(''site_no'', ''01''), (''station_nm'', ''listed second''),
               (''dec_lat_va'', ''40.0''), (''dec_long_va'', ''-75.0''), (''alt_va'', ''10''),
               (''alt_datum_cd'', ''NAVD88'')],
      dec_lat_va = 40, dec_long_va = -75, alt_va = 10\<rparr>"






text \<open>
  A watershed service with three reaches, the trace listing one of them twice, and a
  one-polygon basin (polygons are numbered).
\<close>

definition area_ex :: "int \<Rightarrow> real" where
  "area_ex i = (if i = 1 then 2.5 else if i = 2 then 4 else if i = 3 then 1.5 else 0)"

definition nldi_ex :: "nat nldi" where
  "nldi_ex =
     \<lparr>nldi_comid = Inr 4782925,
      nldi_get_river_network =
        (\<lambda>n. case n of upstreamTributaries \<Rightarrow> Inr [1, 2, 3, 2] | upstreamMain \<Rightarrow> Inr [1, 2]),
      nldi_get_nhdplus_byid = (\<lambda>ids. Inr (catchments area_ex ids)),
      nldi_basin = Inr [7]\<rparr>"

definition world :: "string \<Rightarrow> (string, nat) env" where
  "world text =
     \<lparr>to_datetime = Inr, py_float = float_dec, nearest_points = nearest_scan,
      session_get = (\<lambda>q. Inr text), NLDI = (\<lambda>sid. Inr nldi_ex)\<rparr>"

text \<open>
  File systems: an empty one, one where the station's directory exists, one where its
  geometry file is stored already, one that refuses the station's directory, and one
  that refuses the geometry file.
\<close>

definition fs_empty :: "nat filesystem" where
  "fs_empty = \<lparr>dirs = {}, files = Map.empty, denied = {}\<rparr>"

definition fs_dir :: "nat filesystem" where
  "fs_dir = \<lparr>dirs = {[''data''], [''data'', ''01467087'']}, files = Map.empty, denied = {}\<rparr>"

definition fs_cached :: "nat filesystem" where
  "fs_cached =
     \<lparr>dirs = {[''data''], [''data'', ''01467087'']},
      files = [[''data'', ''01467087'', ''geometry.gpkg''] \<mapsto> [9]], denied = {}\<rparr>"

definition fs_readonly :: "nat filesystem" where
  "fs_readonly = \<lparr>dirs = {[''data'']}, files = Map.empty, denied = {[''data'', ''01467087'']}\<rparr>"

definition fs_nowrite :: "nat filesystem" where
  "fs_nowrite =
     \<lparr>dirs = {[''data''], [''data'', ''01467087'']}, files = Map.empty,
      denied = {[''data'', ''01467087'', ''geometry.gpkg'']}\<rparr>"

section \<open>Sequencing\<close>

lemma bind_Inr_iff: "bind m f = Inr y \<longleftrightarrow> (\<exists>x. m = Inr x \<and> f x = Inr y)"
  by (cases m) (simp_all add: bind_def)

lemma bind_Inl [simp]: "bind (Inl e) f = Inl e"
  by (simp add: bind_def)

lemma bind_Inr [simp]: "bind (Inr x) f = f x"
  by (simp add: bind_def)

lemma raise_if_Inr_iff [simp]: "raise_if b e = Inr u \<longleftrightarrow> \<not> b"
  by (simp add: raise_if_def)

lemma to_float_Inr_iff [simp]: "to_float w s = Inr x \<longleftrightarrow> py_float w s = Some x"
  by (simp add: to_float_def split: option.splits)

lemma bindL_local_Inl [simp]: "bindL (local (Inl e)) f = ([], Inl e)"
  by (simp add: bindL_def local_def)

lemma bindL_local_Inr [simp]: "bindL (local (Inr x)) f = f x"
  by (simp add: bindL_def local_def split: prod.splits)

lemma bindL_remote_Inl [simp]: "bindL (remote c (Inl e)) f = ([c], Inl e)"
  by (simp add: bindL_def remote_def)

lemma bindL_remote_Inr [simp]: "bindL (remote c (Inr x)) f = (c # fst (f x), snd (f x))"
  by (simp add: bindL_def remote_def split: prod.splits)

lemma snd_bindL_Inr:
  "snd (bindL m f) = Inr y \<longleftrightarrow> (\<exists>x. snd m = Inr x \<and> snd (f x) = Inr y)"
  by (cases m) (auto simp: bindL_def split: sum.splits prod.splits)

lemma snd_local [simp]: "snd (local r) = r"
  by (simp add: local_def)

lemma snd_remote [simp]: "snd (remote c r) = r"
  by (simp add: remote_def)

lemma snd_returnL [simp]: "snd (returnL x) = Inr x"
  by (simp add: returnL_def)

lemma fst_returnL [simp]: "fst (returnL x) = []"
  by (simp add: returnL_def)

section \<open>The concrete world, evaluated\<close>

lemmas table_defs = rdb_def rdb_head_def join_def r_list_def

lemmas float_defs = float_dec_def unsigned_dec_def digit_def

lemma r_list_text_one:
  "r_list text_one =
     [[''site_no'', ''station_nm'', ''dec_lat_va'', ''dec_long_va'', ''alt_va'', ''alt_datum_cd''],
      [''15s'', ''50s'', ''16s'', ''16s'', ''8s'', ''10s''],
      [''01467087'', ''Frankford Creek'', ''40.0'', ''-75.1'', ''100'', ''NAVD88''],
      [[]]]"
  by (simp add: text_one_def table_defs)

lemma float_dec_100: "float_dec ''100'' = Some 100"
  by (simp add: float_defs)

lemma get_coords_text_one:
  "get_coords (world text_one) ''01467087'' =
     Inr \<lparr>station_id = ''01467087'', coords = (-75.1, 40), altitude = 30.48,
          datum = ''NAVD88'', name = ''Frankford Creek''\<rparr>"
  by (simp add: get_coords_def world_def r_list_text_one dict_def Let_def bind_def raise_if_def
      getitem_def to_float_def float_defs)

lemma get_watershed_fs_dir:
  "get_watershed (world t) fs_dir [''data'', ''01467087''] ''01467087'' =
     ([Comid, Get_river_network upstreamTributaries, Get_river_network upstreamMain,
       Get_nhdplus_byid [1, 2, 3, 2], Basin],
      Inr (\<lparr>comid = 4782925, tributaries = [1, 2, 3, 2], main_channel = [1, 2],
            flowlines = [(1, 2.5), (3, 1.5), (2, 4)], drainage_area = 8, geometry = 7\<rparr>,
           fs_dir\<lparr>files := [[''data'', ''01467087'', ''geometry.gpkg''] \<mapsto> [7]]\<rparr>))"
  by (simp add: get_watershed_def world_def nldi_ex_def fs_dir_def catchments_def area_ex_def
      bindL_def local_def remote_def returnL_def exists_def to_file_def values0_def)

lemma get_watershed_fs_cached:
  "get_watershed (world t) fs_cached [''data'', ''01467087''] ''01467087'' =
     ([Comid, Get_river_network upstreamTributaries, Get_river_network upstreamMain,
       Get_nhdplus_byid [1, 2, 3, 2]],
      Inr (\<lparr>comid = 4782925, tributaries = [1, 2, 3, 2], main_channel = [1, 2],
            flowlines = [(1, 2.5), (3, 1.5), (2, 4)], drainage_area = 8, geometry = 9\<rparr>,
           fs_cached))"
  by (simp add: get_watershed_def world_def nldi_ex_def fs_cached_def catchments_def area_ex_def
      bindL_def local_def remote_def returnL_def exists_def read_file_def values0_def)

lemma get_watershed_fs_nowrite:
  "get_watershed (world t) fs_nowrite [''data'', ''01467087''] ''01467087'' =
     ([Comid, Get_river_network upstreamTributaries, Get_river_network upstreamMain,
       Get_nhdplus_byid [1, 2, 3, 2], Basin], Inl DriverError)"
  by (simp add: get_watershed_def world_def nldi_ex_def fs_nowrite_def catchments_def area_ex_def
      bindL_def local_def remote_def returnL_def exists_def to_file_def values0_def)

section \<open>The constructor's arguments\<close>

text \<open>
  C5: constructing a \<^verbatim>\<open>Station\<close> with both a station id and coordinates, and
  constructing one with neither, both fail.  The spec's \<^verbatim>\<open>InvalidArgumentError\<close> is
  the \<^verbatim>\<open>RuntimeError\<close> of line 83; it is raised before any request to the NLDI
  service is made and with the file system untouched.  The two dates are parsed first
  (lines 67--68), so they have to be dates.
\<close>

theorem Station_init_both_or_neither:
  assumes "to_datetime w start_arg = Inr s" and "to_datetime w end_arg = Inr e"
  shows "Station_init w fs start_arg end_arg (Some sid) (Some xy) dd = ([], Inl RuntimeError)
       \<and> Station_init w fs start_arg end_arg None None dd = ([], Inl RuntimeError)"
  using assms by (simp add: Station_init_def)

theorem Station_init_both_or_neither_witness:
  "to_datetime (world text_one) ''2010-01-01'' = Inr ''2010-01-01''
   \<and> to_datetime (world text_one) ''2015-12-31'' = Inr ''2015-12-31''
   \<and> Station_init (world text_one) fs_empty ''2010-01-01'' ''2015-12-31''
        (Some ''01467087'') (Some (-75.1, 40)) ''data'' = ([], Inl RuntimeError)
   \<and> Station_init (world text_one) fs_empty ''2010-01-01'' ''2015-12-31''
        None None ''data'' = ([], Inl RuntimeError)"
proof -
  have s: "to_datetime (world text_one) ''2010-01-01'' = Inr ''2010-01-01''"
    and e: "to_datetime (world text_one) ''2015-12-31'' = Inr ''2015-12-31''"
    by (simp_all add: world_def)
  from Station_init_both_or_neither [OF s e] s e show ?thesis
    by blast
qed

section \<open>Resolution by id\<close>

lemma get_coords_Inr:
  assumes "get_coords w sid = Inr st"
  shows "\<exists>text a ft. session_get w (Sites sid) = Inr text \<and>
           getitem (dict (zip (r_list text ! 0) (r_list text ! 2))) ''alt_va'' = Inr a \<and>
           py_float w a = Some ft \<and> altitude st = ft * 0.3048"
  using assms by (auto simp: get_coords_def bind_Inr_iff Let_def)

text \<open>
  C8: the conversion of line 127 maps an altitude of 100 feet to 30.48 meters within
  a tolerance of \<open>1e-6\<close>.  The model computes with real numbers, where the product is
  30.48 exactly; the second half of the statement covers the rounding of floats: every
  number within a relative error of \<open>2\<^sup>-\<^sup>5\<^sup>1\<close> of the computed altitude (two roundings
  of a double and more) is still within the tolerance.
\<close>

theorem feet_to_meters_100:
  assumes "session_get w (Sites sid) = Inr text"
    and "getitem (dict (zip (r_list text ! 0) (r_list text ! 2))) ''alt_va'' = Inr a"
    and "py_float w a = Some 100"
    and "get_coords w sid = Inr st"
  shows "\<bar>altitude st - 30.48\<bar> \<le> 1 / 10 ^ 6 \<and>
         (\<forall>x. \<bar>x - altitude st\<bar> \<le> \<bar>altitude st\<bar> / 2 ^ 51 \<longrightarrow> \<bar>x - 30.48\<bar> \<le> 1 / 10 ^ 6)"
proof -
  from get_coords_Inr [OF assms(4)] assms(1-3) have alt: "altitude st = 30.48"
    by auto
  have small: "\<bar>30.48 :: real\<bar> / 2 ^ 51 \<le> 1 / 10 ^ 6"
    by simp
  have "\<bar>x - 30.48\<bar> \<le> 1 / 10 ^ 6" if "\<bar>x - 30.48\<bar> \<le> \<bar>30.48\<bar> / 2 ^ 51" for x :: real
    using that small by (rule order_trans)
  then show ?thesis
    unfolding alt by simp
qed

theorem feet_to_meters_100_witness:
  "session_get (world text_one) (Sites ''01467087'') = Inr text_one
   \<and> getitem (dict (zip (r_list text_one ! 0) (r_list text_one ! 2))) ''alt_va'' = Inr ''100''
   \<and> py_float (world text_one) ''100'' = Some 100
   \<and> (\<exists>st. get_coords (world text_one) ''01467087'' = Inr st
         \<and> \<bar>altitude st - 30.48\<bar> \<le> 1 / 10 ^ 6)"
proof -
  have 1: "session_get (world text_one) (Sites ''01467087'') = Inr text_one"
    by (simp add: world_def)
  have 2: "getitem (dict (zip (r_list text_one ! 0) (r_list text_one ! 2))) ''alt_va'' = Inr ''100''"
    by (simp add: r_list_text_one dict_def getitem_def)
  have 3: "py_float (world text_one) ''100'' = Some 100"
    by (simp add: world_def float_dec_100)
  from feet_to_meters_100 [OF 1 2 3 get_coords_text_one] 1 2 3 get_coords_text_one
  show ?thesis
    by blast
qed

section \<open>The watershed\<close>

lemma get_watershed_hit:
  assumes "NLDI w sid = Inr ws" "nldi_comid ws = Inr c"
    "nldi_get_river_network ws upstreamTributaries = Inr tribs"
    "nldi_get_river_network ws upstreamMain = Inr main"
    "nldi_get_nhdplus_byid ws tribs = Inr fl"
    "exists fs (dd @ [''geometry.gpkg''])"
  shows "get_watershed w fs dd sid =
    ([Comid, Get_river_network upstreamTributaries, Get_river_network upstreamMain,
      Get_nhdplus_byid tribs],
     bind (read_file fs (dd @ [''geometry.gpkg''])) (\<lambda>gdf. bind (values0 gdf) (\<lambda>g.
       Inr (\<lparr>comid = c, tributaries = tribs, main_channel = main, flowlines = fl,
             drainage_area = sum_list (map snd fl), geometry = g\<rparr>, fs))))"
  using assms by (simp add: get_watershed_def bind_def split: sum.splits)

lemma get_watershed_miss:
  assumes "NLDI w sid = Inr ws" "nldi_comid ws = Inr c"
    "nldi_get_river_network ws upstreamTributaries = Inr tribs"
    "nldi_get_river_network ws upstreamMain = Inr main"
    "nldi_get_nhdplus_byid ws tribs = Inr fl"
    "\<not> exists fs (dd @ [''geometry.gpkg''])"
  shows "get_watershed w fs dd sid =
    ([Comid, Get_river_network upstreamTributaries, Get_river_network upstreamMain,
      Get_nhdplus_byid tribs, Basin],
     bind (nldi_basin ws) (\<lambda>geom. bind (values0 geom) (\<lambda>g.
     bind (to_file fs (dd @ [''geometry.gpkg'']) geom) (\<lambda>fs'.
       Inr (\<lparr>comid = c, tributaries = tribs, main_channel = main, flowlines = fl,
             drainage_area = sum_list (map snd fl), geometry = g\<rparr>, fs')))))"
  using assms by (simp add: get_watershed_def bind_def split: sum.splits)

lemma get_watershed_Inr:
  assumes "snd (get_watershed w fs dd sid) = Inr (r, fs')"
  shows "\<exists>ws c tribs main fl. NLDI w sid = Inr ws \<and> nldi_comid ws = Inr c \<and>
    nldi_get_river_network ws upstreamTributaries = Inr tribs \<and>
    nldi_get_river_network ws upstreamMain = Inr main \<and>
    nldi_get_nhdplus_byid ws tribs = Inr fl"
  using assms by (auto simp add: get_watershed_def snd_bindL_Inr Let_def)

lemma get_watershed_prefix:
  "take 4 (fst (get_watershed w fs dd sid)) = take 4 (fst (get_watershed w fs2 dd2 sid))"
proof (cases "NLDI w sid")
  case (Inl e)
  then show ?thesis by (simp add: get_watershed_def)
next
  case ws: (Inr ws)
  show ?thesis
  proof (cases "nldi_comid ws")
    case (Inl e)
    with ws show ?thesis by (simp add: get_watershed_def)
  next
    case c: (Inr c)
    show ?thesis
    proof (cases "nldi_get_river_network ws upstreamTributaries")
      case (Inl e)
      with ws c show ?thesis by (simp add: get_watershed_def)
    next
      case t: (Inr tribs)
      show ?thesis
      proof (cases "nldi_get_river_network ws upstreamMain")
        case (Inl e)
        with ws c t show ?thesis by (simp add: get_watershed_def)
      next
        case m: (Inr main)
        show ?thesis
        proof (cases "nldi_get_nhdplus_byid ws tribs")
          case (Inl e)
          with ws c t m show ?thesis by (simp add: get_watershed_def)
        next
          case f: (Inr fl)
          have "take 4 (fst (get_watershed w fs' dd' sid)) =
             [Comid, Get_river_network upstreamTributaries, Get_river_network upstreamMain,
              Get_nhdplus_byid tribs]" for fs' dd'
            by (cases "exists fs' (dd' @ [''geometry.gpkg''])")
              (simp_all add: get_watershed_hit [OF ws c t m f] get_watershed_miss [OF ws c t m f])
          then show ?thesis by simp
        qed
      qed
    qed
  qed
qed

lemma world_sel:
  "to_datetime (world t) = Inr" "py_float (world t) = float_dec"
  "nearest_points (world t) = nearest_scan" "session_get (world t) q = Inr t"
  "NLDI (world t) sid = Inr nldi_ex"
  by (simp_all add: world_def)

lemma nldi_ex_sel:
  "nldi_comid nldi_ex = Inr 4782925"
  "nldi_get_river_network nldi_ex upstreamTributaries = Inr [1, 2, 3, 2]"
  "nldi_get_river_network nldi_ex upstreamMain = Inr [1, 2]"
  "nldi_get_nhdplus_byid nldi_ex = (\<lambda>ids. Inr (catchments area_ex ids))"
  "nldi_basin nldi_ex = Inr [7]"
  by (simp_all add: nldi_ex_def)

subsection \<open>The requests\<close>

lemma get_watershed_fields:
  assumes "snd (get_watershed w fs dd sid) = Inr (r, fs')"
  shows "\<exists>ws. NLDI w sid = Inr ws \<and> nldi_comid ws = Inr (comid r)
           \<and> nldi_get_river_network ws upstreamTributaries = Inr (tributaries r)
           \<and> nldi_get_river_network ws upstreamMain = Inr (main_channel r)
           \<and> nldi_get_nhdplus_byid ws (tributaries r) = Inr (flowlines r)"
proof -
  from get_watershed_Inr [OF assms] obtain ws c tribs main fl where
    st: "NLDI w sid = Inr ws" "nldi_comid ws = Inr c"
      "nldi_get_river_network ws upstreamTributaries = Inr tribs"
      "nldi_get_river_network ws upstreamMain = Inr main"
      "nldi_get_nhdplus_byid ws tribs = Inr fl"
    by blast
  have "comid r = c \<and> tributaries r = tribs \<and> main_channel r = main \<and> flowlines r = fl"
    using assms
    by (cases "exists fs (dd @ [''geometry.gpkg''])")
      (auto simp: get_watershed_hit [OF st] get_watershed_miss [OF st] bind_Inr_iff)
  with st show ?thesis
    by auto
qed

text \<open>
  C10: watershed resolution requests the network id, the upstream tributaries, the
  upstream main channel and the catchments of the tributaries, and recomputes the
  drainage area from them, whether or not the geometry file of the station exists; an
  existing file saves the request for the basin and nothing else.  The first four
  requests are the same for every file system and data directory (a request that fails
  ends the list).  A resolution that succeeds has made exactly these four, followed by
  the request for the basin when the file was missing; what it stores as network id,
  tributaries, main channel and flowlines is what the service answered to them, and the
  drainage area is the sum of the areas of those flowlines.
\<close>

theorem get_watershed_requests:
  "take 4 (fst (get_watershed w fs dd sid)) = take 4 (fst (get_watershed w fs2 dd2 sid)) \<and>
   (snd (get_watershed w fs dd sid) = Inr (r, fs') \<longrightarrow>
      (\<exists>ws. NLDI w sid = Inr ws \<and> nldi_comid ws = Inr (comid r)
         \<and> nldi_get_river_network ws upstreamTributaries = Inr (tributaries r)
         \<and> nldi_get_river_network ws upstreamMain = Inr (main_channel r)
         \<and> nldi_get_nhdplus_byid ws (tributaries r) = Inr (flowlines r)) \<and>
      fst (get_watershed w fs dd sid) =
        [Comid, Get_river_network upstreamTributaries, Get_river_network upstreamMain,
         Get_nhdplus_byid (tributaries r)]
        @ (if exists fs (dd @ [''geometry.gpkg'']) then [] else [Basin]) \<and>
      drainage_area r = sum_list (map snd (flowlines r)))"
proof (intro conjI impI)
  show "take 4 (fst (get_watershed w fs dd sid)) = take 4 (fst (get_watershed w fs2 dd2 sid))"
    by (rule get_watershed_prefix)
next
  assume ok: "snd (get_watershed w fs dd sid) = Inr (r, fs')"
  from get_watershed_Inr [OF ok] obtain ws c tribs main fl where
    st: "NLDI w sid = Inr ws" "nldi_comid ws = Inr c"
      "nldi_get_river_network ws upstreamTributaries = Inr tribs"
      "nldi_get_river_network ws upstreamMain = Inr main"
      "nldi_get_nhdplus_byid ws tribs = Inr fl"
    by blast
  show "\<exists>ws. NLDI w sid = Inr ws \<and> nldi_comid ws = Inr (comid r)
         \<and> nldi_get_river_network ws upstreamTributaries = Inr (tributaries r)
         \<and> nldi_get_river_network ws upstreamMain = Inr (main_channel r)
         \<and> nldi_get_nhdplus_byid ws (tributaries r) = Inr (flowlines r)"
    by (rule get_watershed_fields [OF ok])
  show "fst (get_watershed w fs dd sid) =
        [Comid, Get_river_network upstreamTributaries, Get_river_network upstreamMain,
         Get_nhdplus_byid (tributaries r)]
        @ (if exists fs (dd @ [''geometry.gpkg'']) then [] else [Basin])"
    using ok
    by (cases "exists fs (dd @ [''geometry.gpkg''])")
      (auto simp: get_watershed_hit [OF st] get_watershed_miss [OF st] bind_Inr_iff)
  show "drainage_area r = sum_list (map snd (flowlines r))"
    using ok
    by (cases "exists fs (dd @ [''geometry.gpkg''])")
      (auto simp: get_watershed_hit [OF st] get_watershed_miss [OF st] bind_Inr_iff)
qed

theorem get_watershed_requests_witness:
  "exists fs_cached [''data'', ''01467087'', ''geometry.gpkg'']
   \<and> (\<exists>r fs'. snd (get_watershed (world text_one) fs_cached [''data'', ''01467087''] ''01467087'')
                = Inr (r, fs')
        \<and> fst (get_watershed (world text_one) fs_cached [''data'', ''01467087''] ''01467087'')
            = [Comid, Get_river_network upstreamTributaries, Get_river_network upstreamMain,
               Get_nhdplus_byid (tributaries r)]
        \<and> nldi_comid nldi_ex = Inr (comid r)
        \<and> nldi_get_river_network nldi_ex upstreamTributaries = Inr (tributaries r)
        \<and> nldi_get_river_network nldi_ex upstreamMain = Inr (main_channel r)
        \<and> nldi_get_nhdplus_byid nldi_ex (tributaries r) = Inr (flowlines r)
        \<and> drainage_area r = 8)"
proof -
  have hit: "exists fs_cached ([''data'', ''01467087''] @ [''geometry.gpkg''])"
    by (simp add: exists_def fs_cached_def)
  let ?r = "\<lparr>comid = 4782925, tributaries = [1, 2, 3, 2], main_channel = [1, 2],
            flowlines = [(1, 2.5), (3, 1.5), (2, 4)], drainage_area = 8, geometry = 9 :: nat\<rparr>"
  have ok: "snd (get_watershed (world text_one) fs_cached [''data'', ''01467087''] ''01467087'')
      = Inr (?r, fs_cached)"
    by (simp add: get_watershed_fs_cached)
  note all = get_watershed_requests
    [of "world text_one" fs_cached "[''data'', ''01467087'']" "''01467087''" fs_cached
      "[''data'', ''01467087'']" ?r fs_cached, THEN conjunct2, THEN mp, OF ok]
  from all hit
  have log: "fst (get_watershed (world text_one) fs_cached [''data'', ''01467087''] ''01467087'')
      = [Comid, Get_river_network upstreamTributaries, Get_river_network upstreamMain,
         Get_nhdplus_byid (tributaries ?r)]"
    by simp
  from all have "nldi_comid nldi_ex = Inr (comid ?r)
      \<and> nldi_get_river_network nldi_ex upstreamTributaries = Inr (tributaries ?r)
      \<and> nldi_get_river_network nldi_ex upstreamMain = Inr (main_channel ?r)
      \<and> nldi_get_nhdplus_byid nldi_ex (tributaries ?r) = Inr (flowlines ?r)"
    by (simp add: world_sel)
  with log ok hit show ?thesis
    by (intro conjI exI [of _ ?r] exI [of _ fs_cached]) simp_all
qed

subsection \<open>The geometry file\<close>

lemma no_basin_on_hit:
  assumes "exists fs (dd @ [''geometry.gpkg''])"
  shows "Basin \<notin> set (fst (get_watershed w fs dd sid))"
  using assms
  by (auto simp: get_watershed_def Let_def bindL_def local_def remote_def returnL_def
      split: sum.splits prod.splits)

lemma to_file_read_back:
  assumes "to_file fs p gs = Inr fs'"
  shows "read_file fs' p = Inr gs"
  using assms by (auto simp: to_file_def read_file_def split: if_splits)

lemma read_file_exists: "read_file fs p = Inr gs \<Longrightarrow> exists fs p"
  by (auto simp: read_file_def exists_def split: option.splits)

lemma get_watershed_geometry:
  assumes "snd (get_watershed w fs dd sid) = Inr (r, fs')"
  shows "(\<exists>gs. read_file fs' (dd @ [''geometry.gpkg'']) = Inr gs \<and> values0 gs = Inr (geometry r)) \<and>
         (exists fs (dd @ [''geometry.gpkg'']) \<longrightarrow> fs' = fs)"
proof -
  from get_watershed_Inr [OF assms] obtain ws c tribs main fl where
    st: "NLDI w sid = Inr ws" "nldi_comid ws = Inr c"
      "nldi_get_river_network ws upstreamTributaries = Inr tribs"
      "nldi_get_river_network ws upstreamMain = Inr main"
      "nldi_get_nhdplus_byid ws tribs = Inr fl"
    by blast
  show ?thesis
  proof (cases "exists fs (dd @ [''geometry.gpkg''])")
    case True
    with assms show ?thesis
      by (auto simp: get_watershed_hit [OF st True] bind_Inr_iff)
  next
    case False
    with assms show ?thesis
      by (auto simp: get_watershed_miss [OF st False] bind_Inr_iff dest: to_file_read_back)
  qed
qed

text \<open>
  C2: two resolutions of the watershed of one station, one after the other (the
  second starts from the file system the first leaves, and the service may answer it
  differently), return the same basin geometry, and the second makes no request for the
  basin: the geometry file exists after the first, the second reads its geometry from
  that file and leaves the file system as it is.  Once the file exists, no resolution
  requests the basin, whatever its outcome.  Files return what was written to them.
\<close>

theorem get_watershed_twice:
  assumes "get_watershed w1 fs dd sid = (l1, Inr (r1, fs1))"
    and "get_watershed w2 fs1 dd sid = (l2, Inr (r2, fs2))"
  shows "geometry r2 = geometry r1 \<and> Basin \<notin> set l2 \<and> fs2 = fs1 \<and>
         exists fs1 (dd @ [''geometry.gpkg'']) \<and>
         (\<exists>gs. read_file fs1 (dd @ [''geometry.gpkg'']) = Inr gs \<and> values0 gs = Inr (geometry r2)) \<and>
         (\<forall>w. Basin \<notin> set (fst (get_watershed w fs1 dd sid)))"
proof -
  from assms(1) have 1: "snd (get_watershed w1 fs dd sid) = Inr (r1, fs1)"
    by simp
  from assms(2) have 2: "snd (get_watershed w2 fs1 dd sid) = Inr (r2, fs2)"
    by simp
  from get_watershed_geometry [OF 1] obtain gs where
    gs: "read_file fs1 (dd @ [''geometry.gpkg'']) = Inr gs" "values0 gs = Inr (geometry r1)"
    by blast
  then have ex: "exists fs1 (dd @ [''geometry.gpkg''])"
    by (simp add: read_file_exists)
  from get_watershed_geometry [OF 2] ex obtain gs' where
    gs': "read_file fs2 (dd @ [''geometry.gpkg'']) = Inr gs'" "values0 gs' = Inr (geometry r2)"
    and same: "fs2 = fs1"
    by blast
  from gs gs' same have "geometry r2 = geometry r1"
    by simp
  moreover from no_basin_on_hit [OF ex, of w2 sid] assms(2) have "Basin \<notin> set l2"
    by simp
  moreover from gs' same
  have "\<exists>gs. read_file fs1 (dd @ [''geometry.gpkg'']) = Inr gs \<and> values0 gs = Inr (geometry r2)"
    by auto
  ultimately show ?thesis
    using same ex no_basin_on_hit [OF ex] by blast
qed

lemma get_watershed_fs_dir_again:
  "get_watershed (world t)
     (fs_dir\<lparr>files := [[''data'', ''01467087'', ''geometry.gpkg''] \<mapsto> [7]]\<rparr>)
     [''data'', ''01467087''] ''01467087'' =
     ([Comid, Get_river_network upstreamTributaries, Get_river_network upstreamMain,
       Get_nhdplus_byid [1, 2, 3, 2]],
      Inr (\<lparr>comid = 4782925, tributaries = [1, 2, 3, 2], main_channel = [1, 2],
            flowlines = [(1, 2.5), (3, 1.5), (2, 4)], drainage_area = 8, geometry = 7\<rparr>,
           fs_dir\<lparr>files := [[''data'', ''01467087'', ''geometry.gpkg''] \<mapsto> [7]]\<rparr>))"
  by (simp add: get_watershed_def world_def nldi_ex_def fs_dir_def catchments_def area_ex_def
      bindL_def local_def remote_def returnL_def exists_def read_file_def values0_def)

theorem get_watershed_twice_witness:
  "\<exists>l1 r1 fs1 l2 r2 fs2.
     get_watershed (world text_one) fs_dir [''data'', ''01467087''] ''01467087''
       = (l1, Inr (r1, fs1))
   \<and> get_watershed (world text_one) fs1 [''data'', ''01467087''] ''01467087''
       = (l2, Inr (r2, fs2))
   \<and> Basin \<in> set l1 \<and> Basin \<notin> set l2 \<and> geometry r1 = 7 \<and> geometry r2 = 7"
proof -
  note first = get_watershed_fs_dir [of text_one]
  note second = get_watershed_fs_dir_again [of text_one]
  from get_watershed_twice [OF first second]
  have "Basin \<notin> set [Comid, Get_river_network upstreamTributaries,
      Get_river_network upstreamMain, Get_nhdplus_byid [1, 2, 3, 2]]"
    by blast
  with first second show ?thesis
    by (intro exI conjI) (assumption | simp)+
qed

text \<open>
  C6: when the geometry file is missing and the basin has been obtained, the series is
  written to the file before the method returns: the method succeeds only if the write
  does, the file then holds the series, and a write that fails makes the whole method
  fail with the error of the write (the spec's \<^verbatim>\<open>PersistenceError\<close>), although the
  geometry was there.
\<close>

theorem get_watershed_persists:
  assumes "NLDI w sid = Inr ws" "nldi_comid ws = Inr c"
    "nldi_get_river_network ws upstreamTributaries = Inr tribs"
    "nldi_get_river_network ws upstreamMain = Inr main"
    "nldi_get_nhdplus_byid ws tribs = Inr fl"
    "\<not> exists fs (dd @ [''geometry.gpkg''])"
    "nldi_basin ws = Inr geom" "values0 geom = Inr g"
  shows "(\<forall>e. to_file fs (dd @ [''geometry.gpkg'']) geom = Inl e \<longrightarrow>
            snd (get_watershed w fs dd sid) = Inl e) \<and>
         (\<forall>fs'. to_file fs (dd @ [''geometry.gpkg'']) geom = Inr fs' \<longrightarrow>
            (\<exists>r. snd (get_watershed w fs dd sid) = Inr (r, fs') \<and> geometry r = g) \<and>
            read_file fs' (dd @ [''geometry.gpkg'']) = Inr geom) \<and>
         (\<forall>r fs'. snd (get_watershed w fs dd sid) = Inr (r, fs') \<longrightarrow>
            to_file fs (dd @ [''geometry.gpkg'']) geom = Inr fs')"
  using assms(7,8)
  by (auto simp: get_watershed_miss [OF assms(1-6)] bind_Inr_iff dest: to_file_read_back)

theorem get_watershed_persists_witness:
  "NLDI (world text_one) ''01467087'' = Inr nldi_ex
   \<and> nldi_comid nldi_ex = Inr 4782925
   \<and> nldi_get_river_network nldi_ex upstreamTributaries = Inr [1, 2, 3, 2]
   \<and> nldi_get_river_network nldi_ex upstreamMain = Inr [1, 2]
   \<and> nldi_get_nhdplus_byid nldi_ex [1, 2, 3, 2] = Inr (catchments area_ex [1, 2, 3, 2])
   \<and> \<not> exists fs_nowrite ([''data'', ''01467087''] @ [''geometry.gpkg''])
   \<and> nldi_basin nldi_ex = Inr [7] \<and> values0 [7 :: nat] = Inr 7
   \<and> to_file fs_nowrite ([''data'', ''01467087''] @ [''geometry.gpkg'']) [7] = Inl DriverError
   \<and> snd (get_watershed (world text_one) fs_nowrite [''data'', ''01467087''] ''01467087'')
       = Inl DriverError"
proof -
  have 1: "NLDI (world text_one) ''01467087'' = Inr nldi_ex"
    by (simp add: world_sel)
  have 5: "nldi_get_nhdplus_byid nldi_ex [1, 2, 3, 2] = Inr (catchments area_ex [1, 2, 3, 2])"
    by (simp add: nldi_ex_sel)
  have 6: "\<not> exists fs_nowrite ([''data'', ''01467087''] @ [''geometry.gpkg''])"
    by (simp add: exists_def fs_nowrite_def)
  have 8: "values0 [7 :: nat] = Inr 7"
    by (simp add: values0_def)
  have w: "to_file fs_nowrite ([''data'', ''01467087''] @ [''geometry.gpkg'']) [7] = Inl DriverError"
    by (simp add: to_file_def fs_nowrite_def)
  from get_watershed_persists [OF 1 nldi_ex_sel(1) nldi_ex_sel(2) nldi_ex_sel(3) 5 6 nldi_ex_sel(5) 8] w
  have "snd (get_watershed (world text_one) fs_nowrite [''data'', ''01467087''] ''01467087'')
      = Inl DriverError"
    by blast
  with 1 5 6 8 w nldi_ex_sel(1,2,3,5) show ?thesis
    by blast
qed

subsection \<open>The drainage area\<close>

lemma sum_list_catchments: "sum_list (map snd (catchments area ids)) = sum area (set ids)"
proof -
  have "sum_list (map snd (catchments area ids)) = sum_list (map area (remdups ids))"
    by (simp add: catchments_def comp_def)
  also have "\<dots> = sum area (set (remdups ids))"
    by (rule sum_list_distinct_conv_sum_set) simp
  finally show ?thesis
    by simp
qed

text \<open>
  C3: with the catchments of the spec (one area per reach id), the drainage area is the
  sum of the areas over the set of the tributary ids: it depends on nothing but that
  set, so listing an id more than once does not change it.  The areas are real numbers
  here, so the sum is exact.
\<close>

theorem drainage_area_set_sum:
  assumes "NLDI w sid = Inr ws"
    and "nldi_get_nhdplus_byid ws = (\<lambda>ids. Inr (catchments area ids))"
    and "snd (get_watershed w fs dd sid) = Inr (r, fs')"
  shows "drainage_area r = sum area (set (tributaries r)) \<and>
         (\<forall>ids. set ids = set (tributaries r) \<longrightarrow>
            sum_list (map snd (catchments area ids)) = drainage_area r)"
proof -
  from get_watershed_Inr [OF assms(3)] assms(1) obtain c tribs main fl where
    st: "NLDI w sid = Inr ws" "nldi_comid ws = Inr c"
      "nldi_get_river_network ws upstreamTributaries = Inr tribs"
      "nldi_get_river_network ws upstreamMain = Inr main"
      "nldi_get_nhdplus_byid ws tribs = Inr fl"
    by auto
  from st(5) assms(2) have fl: "fl = catchments area tribs"
    by simp
  have "tributaries r = tribs \<and> drainage_area r = sum_list (map snd fl)"
    using assms(3)
    by (cases "exists fs (dd @ [''geometry.gpkg''])")
      (auto simp: get_watershed_hit [OF st] get_watershed_miss [OF st] bind_Inr_iff)
  with fl show ?thesis
    by (simp add: sum_list_catchments)
qed

theorem drainage_area_set_sum_witness:
  "NLDI (world text_one) ''01467087'' = Inr nldi_ex
   \<and> nldi_get_nhdplus_byid nldi_ex = (\<lambda>ids. Inr (catchments area_ex ids))
   \<and> (\<exists>r fs'. snd (get_watershed (world text_one) fs_cached [''data'', ''01467087''] ''01467087'')
                = Inr (r, fs')
        \<and> tributaries r = [1, 2, 3, 2]
        \<and> drainage_area r = sum area_ex (set [1, 2, 3, 2])
        \<and> drainage_area r = 8)"
proof -
  let ?r = "\<lparr>comid = 4782925, tributaries = [1, 2, 3, 2], main_channel = [1, 2],
            flowlines = [(1, 2.5), (3, 1.5), (2, 4)], drainage_area = 8, geometry = 9 :: nat\<rparr>"
  have 1: "NLDI (world text_one) ''01467087'' = Inr nldi_ex"
    by (simp add: world_sel)
  have ok: "snd (get_watershed (world text_one) fs_cached [''data'', ''01467087''] ''01467087'')
      = Inr (?r, fs_cached)"
    by (simp add: get_watershed_fs_cached)
  from drainage_area_set_sum [OF 1 nldi_ex_sel(4) ok]
  have "drainage_area ?r = sum area_ex (set (tributaries ?r))"
    by blast
  with 1 ok nldi_ex_sel(4) show ?thesis
    by (intro conjI exI [of _ ?r] exI [of _ fs_cached]) simp_all
qed

section \<open>The data directory\<close>

text \<open>
  C9: when \<^verbatim>\<open>os.makedirs\<close> fails with \<^verbatim>\<open>OSError\<close>, the handler of lines 94--98
  is meant to print a message and go on.  It does not: the message formats the name
  \<^verbatim>\<open>d\<close>, which is bound nowhere, so the handler raises \<^verbatim>\<open>NameError\<close> and the
  construction fails.  Here the station resolves, its directory is missing and the
  operating system refuses to create it.
\<close>

theorem Station_init_makedirs_NameError:
  "\<not> is_dir fs_readonly [''data'', ''01467087'']
   \<and> makedirs fs_readonly [''data'', ''01467087''] = Inl OSError
   \<and> Station_init (world text_one) fs_readonly ''2010-01-01'' ''2015-12-31''
        (Some ''01467087'') None ''data'' = ([], Inl NameError)"
  by (simp add: Station_init_def get_coords_text_one is_dir_def makedirs_def exists_def
      fs_readonly_def world_sel)

section \<open>Resolution by coordinates\<close>

subsection \<open>The data frame\<close>

lemma traverse_Inr_iff:
  "traverse f xs = Inr ys \<longleftrightarrow> list_all2 (\<lambda>x y. f x = Inr y) xs ys"
proof (induction xs arbitrary: ys)
  case Nil
  then show ?case by auto
next
  case (Cons x xs)
  then show ?case
    by (cases ys) (auto simp: bind_Inr_iff)
qed

lemma astype_float_Inr:
  assumes "astype_float w r = Inr c"
  shows "cells c = r"
    and "\<exists>a. getitem r ''alt_va'' = Inr a \<and> py_float w a = Some (alt_va c)"
  using assms by (auto simp: astype_float_def bind_Inr_iff)

lemma candidates_Inr:
  assumes "candidates w text = Inr df"
  shows "map cells df = valid_rows text"
    and "\<forall>r \<in> set df. \<exists>a. getitem (cells r) ''alt_va'' = Inr a \<and> py_float w a = Some (alt_va r)"
proof -
  from assms have l: "list_all2 (\<lambda>x y. astype_float w x = Inr y) (valid_rows text) df"
    by (auto simp: candidates_def bind_Inr_iff traverse_Inr_iff)
  then have "list_all2 (\<lambda>x y. x = cells y) (valid_rows text) df"
    by (rule list_all2_mono) (simp add: astype_float_Inr(1))
  then show "map cells df = valid_rows text"
    by (simp add: list_all2_conv_all_nth list_eq_iff_nth_eq)
  show "\<forall>r \<in> set df. \<exists>a. getitem (cells r) ''alt_va'' = Inr a \<and> py_float w a = Some (alt_va r)"
  proof
    fix r assume "r \<in> set df"
    then obtain i where i: "i < length df" "df ! i = r"
      by (auto simp: in_set_conv_nth)
    with l have "astype_float w (valid_rows text ! i) = Inr r"
      by (auto simp: list_all2_conv_all_nth)
    from astype_float_Inr [OF this] show "\<exists>a. getitem (cells r) ''alt_va'' = Inr a \<and> py_float w a = Some (alt_va r)"
      by simp
  qed
qed


lemma candidates_empty:
  assumes "valid_rows text = []"
  shows "candidates w text = Inl AttributeError \<or> candidates w text = Inl KeyError
       \<or> candidates w text = Inr []"
  using assms by (auto simp: candidates_def raise_if_def bind_def)

subsection \<open>Dictionaries and first matches\<close>





subsection \<open>The linear scan keeps the contract of the nearest-point search\<close>



subsection \<open>The method, step by step\<close>

lemma get_id_response:
  assumes "session_get w (bbox xy) = Inr body"
  shows "get_id w xy =
          bind (candidates w body) (\<lambda>df.
          bind (raise_if (''site_no'' \<notin> set (columns (r_dict body))) KeyError) (\<lambda>_.
          bind (traverse (\<lambda>r. bind (getitem (cells r) ''site_no'')
                                 (\<lambda>s. Inr (s, (dec_long_va r, dec_lat_va r)))) df) (\<lambda>kvs.
            nearest_station w xy df (dict kvs))))"
  using assms by (simp add: get_id_def)

lemma nearest_station_Inr:
  assumes "nearest_station w xy df pts = Inr st"
  obtains nearest kp ks station ss where
    "nearest_points w xy (unary_union (map snd pts)) = Some nearest"
    "filter (\<lambda>kp. snd kp = nearest) pts = kp # ks"
    "filter (\<lambda>r. map_of (cells r) ''site_no'' = Some (fst kp)) df = station # ss"
    "getitem (cells station) ''alt_datum_cd'' = Inr (datum st)"
    "map_of (cells station) ''station_nm'' = Some (name st)"
    "station_id st = fst kp"
    "coords st = (dec_long_va station, dec_lat_va station)"
    "altitude st = alt_va station * 0.3048"
proof (cases "nearest_points w xy (unary_union (map snd pts))")
  case None
  with assms show ?thesis by (simp add: nearest_station_def)
next
  case (Some nearest)
  show ?thesis
  proof (cases "filter (\<lambda>kp. snd kp = nearest) pts")
    case Nil
    with assms Some show ?thesis by (simp add: nearest_station_def)
  next
    case kp: (Cons kp ks)
    show ?thesis
    proof (cases "filter (\<lambda>r. map_of (cells r) ''site_no'' = Some (fst kp)) df")
      case Nil
      with assms Some kp show ?thesis by (simp add: nearest_station_def)
    next
      case (Cons station ss)
      with assms Some kp
      have "bind (getitem (cells station) ''alt_datum_cd'') (\<lambda>dat.
            bind (case map_of (cells station) ''station_nm'' of
                    None \<Rightarrow> Inl AttributeError
                  | Some nm \<Rightarrow> Inr nm) (\<lambda>nm.
              Inr \<lparr>station_id = fst kp,
                   coords = (dec_long_va station, dec_lat_va station),
                   altitude = alt_va station * 0.3048,
                   datum = dat, name = nm\<rparr>)) = Inr st"
        by (simp add: nearest_station_def)
      then obtain dat nm where "getitem (cells station) ''alt_datum_cd'' = Inr dat"
        and "map_of (cells station) ''station_nm'' = Some nm"
        and "st = \<lparr>station_id = fst kp,
                   coords = (dec_long_va station, dec_lat_va station),
                   altitude = alt_va station * 0.3048,
                   datum = dat, name = nm\<rparr>"
        by (auto simp: bind_Inr_iff split: option.splits)
      with Some kp Cons show ?thesis
        by (intro that [of nearest kp ks station ss]) simp_all
    qed
  qed
qed

lemma get_id_Inr:
  assumes "get_id w xy = Inr st"
  shows "\<exists>body df r. session_get w (bbox xy) = Inr body
           \<and> candidates w body = Inr df \<and> r \<in> set df
           \<and> map_of (cells r) ''site_no'' = Some (station_id st)
           \<and> coords st = (dec_long_va r, dec_lat_va r)
           \<and> altitude st = alt_va r * 0.3048"
proof -
  from assms obtain body where q: "session_get w (bbox xy) = Inr body"
    by (auto simp: get_id_def split: sum.splits)
  from assms obtain df kvs where c: "candidates w body = Inr df"
    and sel: "nearest_station w xy df (dict kvs) = Inr st"
    by (auto simp: get_id_response [OF q] bind_Inr_iff)
  from sel obtain nearest kp ks station ss where
    "nearest_points w xy (unary_union (map snd (dict kvs))) = Some nearest"
    "filter (\<lambda>kp. snd kp = nearest) (dict kvs) = kp # ks"
    and f: "filter (\<lambda>r. map_of (cells r) ''site_no'' = Some (fst kp)) df = station # ss"
    and "getitem (cells station) ''alt_datum_cd'' = Inr (datum st)"
      "map_of (cells station) ''station_nm'' = Some (name st)"
    and st: "station_id st = fst kp" "coords st = (dec_long_va station, dec_lat_va station)"
      "altitude st = alt_va station * 0.3048"
    by (rule nearest_station_Inr)
  from f have "station \<in> set (filter (\<lambda>r. map_of (cells r) ''site_no'' = Some (fst kp)) df)"
    by simp
  then have "station \<in> set df" "map_of (cells station) ''site_no'' = Some (fst kp)"
    by simp_all
  with q c st show ?thesis
    by auto
qed

subsection \<open>The example responses, evaluated\<close>

lemma r_list_text_tie:
  "r_list text_tie =
     [[''site_no'', ''station_nm'', ''dec_lat_va'', ''dec_long_va'', ''alt_va'', ''alt_datum_cd''],
      [''15s'', ''50s'', ''16s'', ''16s'', ''8s'', ''10s''],
      [''03'', ''far'', ''40.4'', ''-75.4'', ''30'', ''NAVD88''],
      [''02'', ''listed first'', ''40.0'', ''-75.0'', ''20'', ''NAVD88''],
      [''01'', ''listed second'', ''40.0'', ''-75.0'', ''10'', ''NAVD88''],
      [[]]]"
  by (simp add: text_tie_def table_defs)

lemma r_dict_text_tie:
  "r_dict text_tie = [cells row03, cells row02, cells row01, [(''site_no'', [])]]"
  by (simp add: r_dict_def r_list_text_tie dict_def row03_def row02_def row01_def)

lemma columns_text_tie:
  "columns (r_dict text_tie) =
     [''station_nm'', ''dec_lat_va'', ''dec_long_va'', ''alt_va'', ''alt_datum_cd'', ''site_no'']"
  by (simp add: columns_def r_dict_text_tie row03_def row02_def row01_def)

lemma valid_rows_text_tie: "valid_rows text_tie = [cells row03, cells row02, cells row01]"
  by (simp add: valid_rows_def dropna_def columns_text_tie)
    (simp add: r_dict_text_tie row03_def row02_def row01_def)

lemma candidates_text_tie: "candidates (world t) text_tie = Inr [row03, row02, row01]"
  by (simp add: candidates_def columns_text_tie valid_rows_text_tie astype_float_def getitem_def
      to_float_def world_sel float_defs raise_if_def row03_def row02_def row01_def)

lemma get_id_text_tie:
  "get_id (world text_tie) (-75, 40) =
     Inr \<lparr>station_id = ''02'', coords = (-75, 40), altitude = 6.096,
          datum = ''NAVD88'', name = ''listed first''\<rparr>"
  by (simp add: get_id_def world_sel candidates_text_tie columns_text_tie raise_if_def dict_def
      getitem_def row03_def row02_def row01_def nearest_station_def unary_union_def dist2_def)





lemma r_list_text_low:
  "r_list text_low =
     [[''site_no'', ''station_nm'', ''dec_lat_va'', ''dec_long_va'', ''alt_va'', ''alt_datum_cd''],
      [''15s'', ''50s'', ''16s'', ''16s'', ''8s'', ''10s''],
      [''10250800'', ''Salt Creek'', ''36.0'', ''-116.8'', ''-10'', ''NGVD29''],
      [[]]]"
  by (simp add: text_low_def table_defs)

lemma get_coords_text_low:
  "get_coords (world text_low) ''10250800'' =
     Inr \<lparr>station_id = ''10250800'', coords = (-116.8, 36), altitude = -3.048,
          datum = ''NGVD29'', name = ''Salt Creek''\<rparr>"
  by (simp add: get_coords_def world_sel r_list_text_low dict_def Let_def bind_def raise_if_def
      getitem_def to_float_def float_defs)



















subsection \<open>No valid candidate\<close>






subsection \<open>The sign of the altitude\<close>

text \<open>
  C7 (amended): in both directions the altitude of the resolved station is the station's
  \<^verbatim>\<open>alt_va\<close>, read as a number of feet, times 0.3048 (lines 127 and 177--179);
  nothing checks its sign, so it is non-negative exactly when the altitude in feet is.
\<close>

theorem altitude_sign:
  "(get_coords w sid = Inr st \<longrightarrow>
      (\<exists>body a ft. session_get w (Sites sid) = Inr body
         \<and> getitem (dict (zip (r_list body ! 0) (r_list body ! 2))) ''alt_va'' = Inr a
         \<and> py_float w a = Some ft
         \<and> altitude st = ft * 0.3048 \<and> (0 \<le> altitude st \<longleftrightarrow> 0 \<le> ft)))
   \<and> (get_id w xy = Inr st' \<longrightarrow>
      (\<exists>body df r a. session_get w (bbox xy) = Inr body
         \<and> candidates w body = Inr df \<and> r \<in> set df
         \<and> map_of (cells r) ''site_no'' = Some (station_id st')
         \<and> getitem (cells r) ''alt_va'' = Inr a \<and> py_float w a = Some (alt_va r)
         \<and> altitude st' = alt_va r * 0.3048 \<and> (0 \<le> altitude st' \<longleftrightarrow> 0 \<le> alt_va r)))"
proof (intro conjI impI)
  assume "get_coords w sid = Inr st"
  from get_coords_Inr [OF this] obtain body a ft where
    *: "session_get w (Sites sid) = Inr body"
      "getitem (dict (zip (r_list body ! 0) (r_list body ! 2))) ''alt_va'' = Inr a"
      "py_float w a = Some ft" "altitude st = ft * 0.3048"
    by blast
  have "0 \<le> altitude st \<longleftrightarrow> 0 \<le> ft"
    unfolding *(4) by (simp add: zero_le_mult_iff)
  with * show "\<exists>body a ft. session_get w (Sites sid) = Inr body
         \<and> getitem (dict (zip (r_list body ! 0) (r_list body ! 2))) ''alt_va'' = Inr a
         \<and> py_float w a = Some ft
         \<and> altitude st = ft * 0.3048 \<and> (0 \<le> altitude st \<longleftrightarrow> 0 \<le> ft)"
    by blast
next
  assume "get_id w xy = Inr st'"
  from get_id_Inr [OF this] obtain body df r where
    *: "session_get w (bbox xy) = Inr body" "candidates w body = Inr df" "r \<in> set df"
      "map_of (cells r) ''site_no'' = Some (station_id st')"
      "altitude st' = alt_va r * 0.3048"
    by blast
  from candidates_Inr(2) [OF *(2)] *(3) obtain a where
    a: "getitem (cells r) ''alt_va'' = Inr a" "py_float w a = Some (alt_va r)"
    by blast
  have "0 \<le> altitude st' \<longleftrightarrow> 0 \<le> alt_va r"
    unfolding *(5) by (simp add: zero_le_mult_iff)
  with * a show "\<exists>body df r a. session_get w (bbox xy) = Inr body
         \<and> candidates w body = Inr df \<and> r \<in> set df
         \<and> map_of (cells r) ''site_no'' = Some (station_id st')
         \<and> getitem (cells r) ''alt_va'' = Inr a \<and> py_float w a = Some (alt_va r)
         \<and> altitude st' = alt_va r * 0.3048 \<and> (0 \<le> altitude st' \<longleftrightarrow> 0 \<le> alt_va r)"
    by blast
qed

theorem altitude_sign_witness:
  "(\<exists>st a ft. get_coords (world text_one) ''01467087'' = Inr st
       \<and> py_float (world text_one) a = Some ft
       \<and> altitude st = ft * 0.3048 \<and> 0 \<le> ft \<and> 0 \<le> altitude st)
   \<and> (\<exists>st (r :: station_row). get_id (world text_tie) (-75, 40) = Inr st
       \<and> altitude st = alt_va r * 0.3048 \<and> 0 \<le> alt_va r \<and> 0 \<le> altitude st)"
proof
  let ?s1 = "\<lparr>station_id = ''01467087'', coords = (-75.1, 40), altitude = 30.48,
          datum = ''NAVD88'', name = ''Frankford Creek''\<rparr>"
  from altitude_sign [THEN conjunct1, THEN mp, OF get_coords_text_one]
  obtain body a ft where
    "session_get (world text_one) (Sites ''01467087'') = Inr body"
    "getitem (dict (zip (r_list body ! 0) (r_list body ! 2))) ''alt_va'' = Inr a"
    and 1: "py_float (world text_one) a = Some ft"
      "altitude ?s1 = ft * 0.3048" "0 \<le> altitude ?s1 \<longleftrightarrow> 0 \<le> ft"
    by (elim exE conjE) (rule that)
  have "0 \<le> altitude ?s1"
    by simp
  with 1(3) have "0 \<le> ft"
    by (rule iffD1)
  with 1 get_coords_text_one \<open>0 \<le> altitude ?s1\<close>
  have "get_coords (world text_one) ''01467087'' = Inr ?s1
       \<and> py_float (world text_one) a = Some ft
       \<and> altitude ?s1 = ft * 0.3048 \<and> 0 \<le> ft \<and> 0 \<le> altitude ?s1"
    by (intro conjI)
  then show "\<exists>st a ft. get_coords (world text_one) ''01467087'' = Inr st
       \<and> py_float (world text_one) a = Some ft
       \<and> altitude st = ft * 0.3048 \<and> 0 \<le> ft \<and> 0 \<le> altitude st"
    by (intro exI)
next
  let ?s2 = "\<lparr>station_id = ''02'', coords = (-75, 40), altitude = 6.096,
          datum = ''NAVD88'', name = ''listed first''\<rparr>"
  from altitude_sign [THEN conjunct2, THEN mp, OF get_id_text_tie]
  obtain body df r a where
    "session_get (world text_tie) (bbox (-75, 40)) = Inr body"
    "candidates (world text_tie) body = Inr df" "r \<in> set df"
    "map_of (cells r) ''site_no'' = Some (station_id ?s2)"
    "getitem (cells r) ''alt_va'' = Inr a" "py_float (world text_tie) a = Some (alt_va r)"
    and 2: "altitude ?s2 = alt_va r * 0.3048" "0 \<le> altitude ?s2 \<longleftrightarrow> 0 \<le> alt_va r"
    by (elim exE conjE) (rule that)
  have "0 \<le> altitude ?s2"
    by simp
  with 2(2) have "0 \<le> alt_va r"
    by (rule iffD1)
  with 2 get_id_text_tie \<open>0 \<le> altitude ?s2\<close>
  have "get_id (world text_tie) (-75, 40) = Inr ?s2
       \<and> altitude ?s2 = alt_va r * 0.3048 \<and> 0 \<le> alt_va r \<and> 0 \<le> altitude ?s2"
    by (intro conjI)
  then show "\<exists>st (r :: station_row). get_id (world text_tie) (-75, 40) = Inr st
       \<and> altitude st = alt_va r * 0.3048 \<and> 0 \<le> alt_va r \<and> 0 \<le> altitude st"
    by (intro exI)
qed

text \<open>
  C7 as stated fails: a station below its datum, here at \<open>-10\<close> feet, resolves to a
  negative altitude in meters.
\<close>

theorem altitude_negative_counterexample:
  "\<exists>st. get_coords (world text_low) ''10250800'' = Inr st \<and> altitude st < 0"
  by (simp add: get_coords_text_low)

subsection \<open>The nearest station\<close>




end
